theory Spec2Isabelle
  imports Complex_Main
begin

section \<open>The ZUUK1m1p strategy (user\_data/strategies/ZUUK1m1p.py)\<close>

subsection \<open>Floating-point values\<close>

text \<open>
  The strategy computes with float64 values (numpy scalars read from the dataframe,
  Python floats passed by the caller). A value is a finite number, an infinity or NaN.
  Finite arithmetic is exact here: rounding and overflow of the binary format are
  abstracted away, so a finite result stands for the float nearest to it. The special
  values follow IEEE 754 as numpy implements it: an operation on NaN gives NaN, a
  comparison with NaN is false, and a division by zero gives an infinity or NaN (numpy
  emits a warning, it does not raise). Zero is unsigned.
\<close>

datatype pyfloat = Fin real | PInf | NInf | NaN

fun is_finite :: "pyfloat \<Rightarrow> bool" where
  "is_finite (Fin x) = True"
| "is_finite PInf = False"
| "is_finite NInf = False"
| "is_finite NaN = False"

fun fneg :: "pyfloat \<Rightarrow> pyfloat" where
  "fneg (Fin x) = Fin (- x)"
| "fneg PInf = NInf"
| "fneg NInf = PInf"
| "fneg NaN = NaN"

fun fadd :: "pyfloat \<Rightarrow> pyfloat \<Rightarrow> pyfloat" where
  "fadd NaN b = NaN"
| "fadd a NaN = NaN"
| "fadd (Fin x) (Fin y) = Fin (x + y)"
| "fadd PInf NInf = NaN"
| "fadd NInf PInf = NaN"
| "fadd PInf b = PInf"
| "fadd a PInf = PInf"
| "fadd NInf b = NInf"
| "fadd a NInf = NInf"

definition fsub :: "pyfloat \<Rightarrow> pyfloat \<Rightarrow> pyfloat" where
  "fsub a b = fadd a (fneg b)"

fun fmul :: "pyfloat \<Rightarrow> pyfloat \<Rightarrow> pyfloat" where
  "fmul NaN b = NaN"
| "fmul a NaN = NaN"
| "fmul (Fin x) (Fin y) = Fin (x * y)"
| "fmul (Fin x) PInf = (if x = 0 then NaN else if 0 < x then PInf else NInf)"
| "fmul (Fin x) NInf = (if x = 0 then NaN else if 0 < x then NInf else PInf)"
| "fmul PInf (Fin y) = (if y = 0 then NaN else if 0 < y then PInf else NInf)"
| "fmul NInf (Fin y) = (if y = 0 then NaN else if 0 < y then NInf else PInf)"
| "fmul PInf PInf = PInf"
| "fmul PInf NInf = NInf"
| "fmul NInf PInf = NInf"
| "fmul NInf NInf = PInf"

fun fdiv :: "pyfloat \<Rightarrow> pyfloat \<Rightarrow> pyfloat" where
  "fdiv NaN b = NaN"
| "fdiv a NaN = NaN"
| "fdiv (Fin x) (Fin y) =
     (if y \<noteq> 0 then Fin (x / y)
      else if x = 0 then NaN else if 0 < x then PInf else NInf)"
| "fdiv (Fin x) PInf = Fin 0"
| "fdiv (Fin x) NInf = Fin 0"
| "fdiv PInf (Fin y) = (if 0 \<le> y then PInf else NInf)"
| "fdiv NInf (Fin y) = (if 0 \<le> y then NInf else PInf)"
| "fdiv PInf PInf = NaN"
| "fdiv PInf NInf = NaN"
| "fdiv NInf PInf = NaN"
| "fdiv NInf NInf = NaN"

fun flt :: "pyfloat \<Rightarrow> pyfloat \<Rightarrow> bool" where
  "flt NaN b = False"
| "flt a NaN = False"
| "flt (Fin x) (Fin y) = (x < y)"
| "flt (Fin x) PInf = True"
| "flt (Fin x) NInf = False"
| "flt PInf b = False"
| "flt NInf (Fin y) = True"
| "flt NInf PInf = True"
| "flt NInf NInf = False"

fun fle :: "pyfloat \<Rightarrow> pyfloat \<Rightarrow> bool" where
  "fle NaN b = False"
| "fle a NaN = False"
| "fle (Fin x) (Fin y) = (x \<le> y)"
| "fle (Fin x) PInf = True"
| "fle (Fin x) NInf = False"
| "fle PInf PInf = True"
| "fle PInf b = False"
| "fle NInf b = True"

definition fgt :: "pyfloat \<Rightarrow> pyfloat \<Rightarrow> bool" where
  "fgt a b = flt b a"

definition fge :: "pyfloat \<Rightarrow> pyfloat \<Rightarrow> bool" where
  "fge a b = fle b a"

text \<open>
  Python's built-in \<open>max(a, b, c)\<close>: the first argument is the candidate, and a later
  argument replaces it only when it compares greater.
\<close>

definition py_max3 :: "pyfloat \<Rightarrow> pyfloat \<Rightarrow> pyfloat \<Rightarrow> pyfloat" where
  "py_max3 a b c =
     (let m = a;
          m = (if fgt b m then b else m);
          m = (if fgt c m then c else m)
      in m)"

subsection \<open>Exceptions, cells and dataframes\<close>

datatype error = KeyError | IndexError | TypeError | ValueError | LibraryError

definition ebind :: "error + 'a \<Rightarrow> ('a \<Rightarrow> error + 'b) \<Rightarrow> error + 'b" where
  "ebind m f = (case m of Inl e \<Rightarrow> Inl e | Inr x \<Rightarrow> f x)"

text \<open>
  A cell of a dataframe is a float64, a boolean or a timestamp (microseconds since the
  epoch). A dataframe has a row count (\<open>len(dataframe)\<close>) and named columns.
\<close>

datatype cell = Num pyfloat | Bool bool | Stamp int

record dataframe =
  nrows :: nat
  cols :: "string \<rightharpoonup> cell list"

type_synonym row = "string \<rightharpoonup> cell"

type_synonym metadata = "string \<rightharpoonup> string"

text \<open>A boolean used as a number is 0 or 1; a timestamp is not a number.\<close>

fun num :: "cell \<Rightarrow> error + pyfloat" where
  "num (Num x) = Inr x"
| "num (Bool b) = Inr (Fin (if b then 1 else 0))"
| "num (Stamp t) = Inl TypeError"

text \<open>Truth value of a cell in \<open>if uptrend:\<close>; a nonzero number, NaN included, is true.\<close>

fun truth :: "cell \<Rightarrow> bool" where
  "truth (Bool b) = b"
| "truth (Num x) = (x \<noteq> Fin 0)"
| "truth (Stamp t) = True"

fun to_floats :: "cell list \<Rightarrow> error + pyfloat list" where
  "to_floats [] = Inr []"
| "to_floats (c # cs) =
     ebind (num c) (\<lambda>x. ebind (to_floats cs) (\<lambda>xs. Inr (x # xs)))"

text \<open>\<open>dataframe[name]\<close>, read and written.\<close>

definition getitem :: "dataframe \<Rightarrow> string \<Rightarrow> error + cell list" where
  "getitem df name = (case cols df name of None \<Rightarrow> Inl KeyError | Some s \<Rightarrow> Inr s)"

definition setitem :: "dataframe \<Rightarrow> string \<Rightarrow> cell list \<Rightarrow> dataframe" where
  "setitem df name s = df\<lparr>cols := (cols df)(name \<mapsto> s)\<rparr>"

text \<open>\<open>dataframe.iloc[i]\<close>: the row at a position, negative positions counting from the end.\<close>

definition iloc :: "dataframe \<Rightarrow> int \<Rightarrow> error + row" where
  "iloc df i =
     (let n = int (nrows df); j = (if i < 0 then n + i else i)
      in if 0 \<le> j \<and> j < n
         then Inr (\<lambda>name. case cols df name of
                      None \<Rightarrow> None
                    | Some s \<Rightarrow> if nat j < length s then Some (s ! nat j) else None)
         else Inl IndexError)"

text \<open>\<open>row[name]\<close>\<close>

definition row_get :: "row \<Rightarrow> string \<Rightarrow> error + cell" where
  "row_get r name = (case r name of None \<Rightarrow> Inl KeyError | Some c \<Rightarrow> Inr c)"

text \<open>
  \<open>dataframe.loc[mask, name] = v\<close> with a scalar \<open>v\<close>: the rows selected by the mask get
  the value, the others keep theirs; a column that did not exist is created, NaN in the
  other rows. Creating a column in a dataframe without rows raises ValueError.
\<close>

definition loc_set :: "dataframe \<Rightarrow> bool list \<Rightarrow> string \<Rightarrow> cell \<Rightarrow> error + dataframe" where
  "loc_set df sel name v =
     (case cols df name of
        None \<Rightarrow>
          if nrows df = 0 then Inl ValueError
          else Inr (setitem df name
                 (map2 (\<lambda>m c. if m then v else c) sel (replicate (nrows df) (Num NaN))))
      | Some s \<Rightarrow> Inr (setitem df name (map2 (\<lambda>m c. if m then v else c) sel s)))"

subsection \<open>Series operations of pandas\<close>

text \<open>
  \<open>Series.pct_change()\<close> computes \<open>data / data.shift(1) - 1\<close>. Its default
  \<open>fill_method\<close> depends on the release of the library: before pandas 3 the series is
  first padded (a NaN takes the last value before it), since pandas 3 it is not. The
  default in force is the parameter \<open>pad\<close>.
\<close>

fun ffill_from :: "pyfloat \<Rightarrow> pyfloat list \<Rightarrow> pyfloat list" where
  "ffill_from prev [] = []"
| "ffill_from prev (x # xs) = (let y = (if x = NaN then prev else x) in y # ffill_from y xs)"

definition ffill :: "pyfloat list \<Rightarrow> pyfloat list" where
  "ffill xs = ffill_from NaN xs"

definition shift1 :: "pyfloat list \<Rightarrow> pyfloat list" where
  "shift1 xs = (if xs = [] then [] else NaN # butlast xs)"

definition pct_change :: "bool \<Rightarrow> pyfloat list \<Rightarrow> pyfloat list" where
  "pct_change pad xs =
     (let data = (if pad then ffill xs else xs)
      in map2 (\<lambda>a b. fsub (fdiv a b) (Fin 1)) data (shift1 data))"

text \<open>
  \<open>Series.rolling(window=w)\<close>: the values are prepared first, an infinity becoming NaN;
  the result at an index is the aggregate of the \<open>w\<close> values ending there, and NaN where
  fewer than \<open>w\<close> values that are not NaN end there.
\<close>

definition prep_values :: "pyfloat list \<Rightarrow> pyfloat list" where
  "prep_values xs = map (\<lambda>x. if is_finite x then x else NaN) xs"

definition rolling :: "nat \<Rightarrow> (pyfloat list \<Rightarrow> pyfloat) \<Rightarrow> pyfloat list \<Rightarrow> pyfloat list" where
  "rolling w agg xs =
     map (\<lambda>i. let win = take w (drop (i + 1 - w) (prep_values xs))
               in if i + 1 < w \<or> NaN \<in> set win then NaN else agg win)
         [0..<length xs]"

definition mean :: "pyfloat list \<Rightarrow> pyfloat" where
  "mean ws = fdiv (foldl fadd (Fin 0) ws) (Fin (real (length ws)))"

definition fmin :: "pyfloat \<Rightarrow> pyfloat \<Rightarrow> pyfloat" where
  "fmin a b = (if flt b a then b else a)"

definition minimum :: "pyfloat list \<Rightarrow> pyfloat" where
  "minimum ws = (case ws of [] \<Rightarrow> NaN | x # r \<Rightarrow> foldl fmin x r)"

subsection \<open>The indicator library\<close>

text \<open>
  TA-Lib is not part of the repository: its functions \<open>ta.ATR(dataframe, timeperiod)\<close> and
  \<open>ta.EMA(dataframe, timeperiod)\<close> are parameters. Each returns a series or raises.
\<close>

record talib =
  ATR :: "dataframe \<Rightarrow> nat \<Rightarrow> error + pyfloat list"
  EMA :: "dataframe \<Rightarrow> nat \<Rightarrow> error + pyfloat list"

subsection \<open>Class attributes\<close>

definition timeframe :: string where
  "timeframe = ''1m''"

definition stoploss :: pyfloat where
  "stoploss = Fin (- 0.15)"

definition startup_candle_count :: nat where
  "startup_candle_count = 200"

subsection \<open>custom\_stoploss\<close>

text \<open>
  The trade as the strategy reads it, and the data provider \<open>self.dp\<close> of the host:
  \<open>get_analyzed_dataframe(pair, timeframe)\<close> returns the analyzed dataframe and the time
  of its analysis. Points in time are microseconds since the epoch, the resolution of
  \<open>datetime\<close>. The four cells of the last candle are read first (lines 91 to 94); a
  cell is taken as a number where the arithmetic first uses it (lines 98, 114 and 118).
\<close>

record trade =
  open_rate :: pyfloat
  open_date_utc :: int

type_synonym data_provider = "string \<Rightarrow> string \<Rightarrow> dataframe \<times> int"

text \<open>\<open>(current_time - trade.open_date_utc).total_seconds() / 60\<close>\<close>

definition trade_duration :: "int \<Rightarrow> trade \<Rightarrow> pyfloat" where
  "trade_duration current_time trade =
     fdiv (Fin (real_of_int (current_time - open_date_utc trade) / 1000000)) (Fin 60)"

text \<open>Lines 97 to 111: the multiplier of the ATR.\<close>

definition atr_multiplier :: "cell \<Rightarrow> pyfloat \<Rightarrow> pyfloat \<Rightarrow> pyfloat \<Rightarrow> pyfloat" where
  "atr_multiplier uptrend atr_ratio current_profit duration =
     (let m = (if truth uptrend then fmul (Fin 1.5) atr_ratio else fmul (Fin 1.0) atr_ratio);
          m = (if fgt current_profit (Fin 0.05) then fmul m (Fin 0.8)
               else if fgt current_profit (Fin 0.02) then fmul m (Fin 0.9)
               else m);
          m = (if fgt duration (Fin 120) then fmul m (Fin 0.8) else m)
      in m)"

text \<open>Lines 114 and 115: the stoploss from the ATR, as a fraction of the open rate.\<close>

definition atr_stoploss_pct :: "pyfloat \<Rightarrow> pyfloat \<Rightarrow> pyfloat \<Rightarrow> pyfloat \<Rightarrow> pyfloat" where
  "atr_stoploss_pct current_rate atr multiplier open_rate0 =
     (let atr_stoploss_price = fsub current_rate (fmul atr multiplier)
      in fdiv (fsub atr_stoploss_price open_rate0) open_rate0)"

text \<open>Lines 118 and 119: the stoploss from the swing low.\<close>

definition swing_stoploss_pct :: "pyfloat \<Rightarrow> pyfloat \<Rightarrow> pyfloat" where
  "swing_stoploss_pct swing_low open_rate0 =
     (let swing_stoploss_price = fmul swing_low (Fin 0.99)
      in fdiv (fsub swing_stoploss_price open_rate0) open_rate0)"

definition custom_stoploss ::
  "data_provider \<Rightarrow> string \<Rightarrow> trade \<Rightarrow> int \<Rightarrow> pyfloat \<Rightarrow> pyfloat \<Rightarrow> bool \<Rightarrow> error + pyfloat" where
  "custom_stoploss dp pair trade current_time current_rate current_profit after_fill =
     (let dataframe = fst (dp pair timeframe)
      in if nrows dataframe < startup_candle_count then Inr (Fin 1)
         else
           ebind (iloc dataframe (- 1)) (\<lambda>last_candle.
           ebind (row_get last_candle ''atr'') (\<lambda>atr.
           ebind (row_get last_candle ''atr_ratio'') (\<lambda>atr_ratio.
           ebind (row_get last_candle ''uptrend'') (\<lambda>uptrend.
           ebind (row_get last_candle ''swing_low'') (\<lambda>swing_low.
           ebind (num atr_ratio) (\<lambda>atr_ratio.
           let multiplier = atr_multiplier uptrend atr_ratio current_profit
                              (trade_duration current_time trade) in
           ebind (num atr) (\<lambda>atr.
           let atr_pct = atr_stoploss_pct current_rate atr multiplier (open_rate trade) in
           ebind (num swing_low) (\<lambda>swing_low.
           let swing_pct = swing_stoploss_pct swing_low (open_rate trade)
           in Inr (py_max3 atr_pct swing_pct stoploss))))))))))"

subsection \<open>populate\_indicators, populate\_buy\_trend, populate\_sell\_trend\<close>

definition populate_indicators ::
  "talib \<Rightarrow> bool \<Rightarrow> dataframe \<Rightarrow> metadata \<Rightarrow> error + dataframe" where
  "populate_indicators ta pad dataframe metadata =
     ebind (ebind (getitem dataframe ''close'') to_floats) (\<lambda>close.
     let dataframe = setitem dataframe ''price_change'' (map Num (pct_change pad close)) in
     ebind (ATR ta dataframe 14) (\<lambda>atr.
     let dataframe = setitem dataframe ''atr'' (map Num atr) in
     ebind (ebind (getitem dataframe ''atr'') to_floats) (\<lambda>atr.
     let dataframe = setitem dataframe ''long_atr'' (map Num (rolling 100 mean atr)) in
     ebind (ebind (getitem dataframe ''atr'') to_floats) (\<lambda>atr.
     ebind (ebind (getitem dataframe ''long_atr'') to_floats) (\<lambda>long_atr.
     let dataframe = setitem dataframe ''atr_ratio'' (map Num (map2 fdiv atr long_atr)) in
     ebind (EMA ta dataframe 50) (\<lambda>ema_short.
     let dataframe = setitem dataframe ''ema_short'' (map Num ema_short) in
     ebind (EMA ta dataframe 200) (\<lambda>ema_long.
     let dataframe = setitem dataframe ''ema_long'' (map Num ema_long) in
     ebind (ebind (getitem dataframe ''ema_short'') to_floats) (\<lambda>ema_short.
     ebind (ebind (getitem dataframe ''ema_long'') to_floats) (\<lambda>ema_long.
     let dataframe = setitem dataframe ''uptrend''
                       (map2 (\<lambda>a b. Bool (fgt a b)) ema_short ema_long) in
     ebind (ebind (getitem dataframe ''low'') to_floats) (\<lambda>low.
     let dataframe = setitem dataframe ''swing_low'' (map Num (rolling 5 minimum low)) in
     Inr dataframe))))))))))"


definition populate_sell_trend :: "dataframe \<Rightarrow> metadata \<Rightarrow> error + dataframe" where
  "populate_sell_trend dataframe metadata =
     ebind (ebind (getitem dataframe ''close'') to_floats) (\<lambda>close.
     loc_set dataframe (map (\<lambda>x. fgt x (Fin 0)) close) ''sell'' (Num (Fin 0)))"

text \<open>
  The host reads a signal column of a row as set when the cell equals 1.
\<close>

definition signal :: "dataframe \<Rightarrow> string \<Rightarrow> nat \<Rightarrow> bool" where
  "signal df name i =
     (case cols df name of
        None \<Rightarrow> False
      | Some s \<Rightarrow> i < length s \<and> num (s ! i) = Inr (Fin 1))"

section \<open>Properties\<close>

subsection \<open>Auxiliary facts\<close>

lemma ebind_simps [simp]: "ebind (Inl e) f = Inl e" "ebind (Inr x) f = f x"
  by (simp_all add: ebind_def)

lemma fmul_one [simp]: "fmul x (Fin 1) = x"
  by (cases x) simp_all

lemma py_max3_among: "py_max3 a b c = a \<or> py_max3 a b c = b \<or> py_max3 a b c = c"
  by (simp add: py_max3_def Let_def)

lemma py_max3_not_less:
  "\<not> flt (py_max3 a b c) a" "\<not> flt (py_max3 a b c) b" "\<not> flt (py_max3 a b c) c"
  by (cases a; cases b; cases c; simp add: py_max3_def fgt_def)+

lemma py_max3_ge:
  assumes "a \<noteq> NaN" "c \<noteq> NaN"
  shows "fge (py_max3 a b c) a" "fge (py_max3 a b c) c" "b \<noteq> NaN \<Longrightarrow> fge (py_max3 a b c) b"
  using assms by (cases a; cases b; cases c; simp add: py_max3_def fgt_def fge_def)+

text \<open>
  With enough candles and the four indicators in the last row, the function returns the
  maximum of line 122.
\<close>

lemma custom_stoploss_value:
  assumes "startup_candle_count \<le> nrows (fst (dp pair timeframe))"
    and "iloc (fst (dp pair timeframe)) (- 1) = Inr last_candle"
    and "last_candle ''atr'' = Some (Num atr)"
    and "last_candle ''atr_ratio'' = Some (Num atr_ratio)"
    and "last_candle ''uptrend'' = Some uptrend"
    and "last_candle ''swing_low'' = Some (Num swing_low)"
  shows "custom_stoploss dp pair trade current_time current_rate current_profit after_fill =
     Inr (py_max3
            (atr_stoploss_pct current_rate atr
               (atr_multiplier uptrend atr_ratio current_profit (trade_duration current_time trade))
               (open_rate trade))
            (swing_stoploss_pct swing_low (open_rate trade))
            stoploss)"
  using assms by (simp add: custom_stoploss_def Let_def row_get_def)

text \<open>120 minutes are 7200000000 microseconds.\<close>

lemma duration_gt_120:
  "fgt (trade_duration current_time trade) (Fin 120) \<longleftrightarrow>
   7200000000 < current_time - open_date_utc trade"
proof -
  have "real_of_int 7200000000 < real_of_int (current_time - open_date_utc trade) \<longleftrightarrow>
        7200000000 < current_time - open_date_utc trade"
    by (rule of_int_less_iff)
  then show ?thesis
    by (simp add: trade_duration_def fgt_def)
qed

lemma atr_multiplier_formula:
  "atr_multiplier uptrend atr_ratio current_profit (trade_duration current_time trade) =
     fmul (fmul (fmul (Fin (if truth uptrend then 1.5 else 1.0)) atr_ratio)
                (Fin (if fgt current_profit (Fin 0.05) then 0.8
                      else if fgt current_profit (Fin 0.02) then 0.9 else 1)))
          (Fin (if 7200000000 < current_time - open_date_utc trade then 0.8 else 1))"
  by (simp add: atr_multiplier_def Let_def duration_gt_120)

subsection \<open>custom\_stoploss\<close>

text \<open>
  C2. With fewer than 200 rows in the analyzed dataframe, custom\_stoploss returns 1,
  whatever the trade, the current time, the current rate and the current profit are.
\<close>

theorem custom_stoploss_insufficient_data:
  "nrows (fst (dp pair timeframe)) < 200 \<Longrightarrow>
   custom_stoploss dp pair trade current_time current_rate current_profit after_fill = Inr (Fin 1)"
  by (simp add: custom_stoploss_def startup_candle_count_def)

theorem custom_stoploss_insufficient_data_witness:
  "nrows (fst ((\<lambda>p t. (\<lparr>nrows = 199, cols = Map.empty\<rparr>, 0)) ''BTC/USDT'' timeframe)) < 200 \<and>
   custom_stoploss (\<lambda>p t. (\<lparr>nrows = 199, cols = Map.empty\<rparr>, 0)) ''BTC/USDT''
     \<lparr>open_rate = Fin 100, open_date_utc = 0\<rparr> 60000000 (Fin 101) (Fin 0.01) False = Inr (Fin 1)"
  using custom_stoploss_insufficient_data
          [of "\<lambda>p t. (\<lparr>nrows = 199, cols = Map.empty\<rparr>, 0)" "''BTC/USDT''"
              "\<lparr>open_rate = Fin 100, open_date_utc = 0\<rparr>" 60000000 "Fin 101" "Fin 0.01" False]
  by simp

text \<open>
  C5. The example of the specification: 200 candles, the last with atr 1.0, atr\_ratio 1.2,
  uptrend true and swing\_low 103; open rate 100, current rate 105, profit 0.03, ten minutes
  after the open. The multiplier is 1.62, the ATR stop price 103.38 and its fraction
  0.0338, the swing stop price 101.97 and its fraction 0.0197, and custom\_stoploss returns
  0.0338 (in exact arithmetic; a float64 run differs by rounding only).
\<close>

theorem custom_stoploss_example:
  "custom_stoploss
     (\<lambda>pair tf. (\<lparr>nrows = 200,
                    cols = [''atr'' \<mapsto> replicate 200 (Num (Fin 1.0)),
                            ''atr_ratio'' \<mapsto> replicate 200 (Num (Fin 1.2)),
                            ''uptrend'' \<mapsto> replicate 200 (Bool True),
                            ''swing_low'' \<mapsto> replicate 200 (Num (Fin 103))]\<rparr>, 0))
     ''BTC/USDT'' \<lparr>open_rate = Fin 100, open_date_utc = 0\<rparr> 600000000 (Fin 105) (Fin 0.03) False
   = Inr (Fin 0.0338)
   \<and> atr_multiplier (Bool True) (Fin 1.2) (Fin 0.03)
        (trade_duration 600000000 \<lparr>open_rate = Fin 100, open_date_utc = 0\<rparr>) = Fin 1.62
   \<and> fsub (Fin 105) (fmul (Fin 1.0) (Fin 1.62)) = Fin 103.38
   \<and> atr_stoploss_pct (Fin 105) (Fin 1.0) (Fin 1.62) (Fin 100) = Fin 0.0338
   \<and> fmul (Fin 103) (Fin 0.99) = Fin 101.97
   \<and> swing_stoploss_pct (Fin 103) (Fin 100) = Fin 0.0197
   \<and> py_max3 (Fin 0.0338) (Fin 0.0197) stoploss = Fin 0.0338"
  by (simp add: custom_stoploss_def startup_candle_count_def iloc_def row_get_def
      atr_multiplier_def trade_duration_def atr_stoploss_pct_def swing_stoploss_pct_def py_max3_def
      fgt_def fsub_def stoploss_def)

text \<open>
  C3, as the code has it. With at least 200 candles and the four indicators in the last
  row, the value returned is the maximum of line 122: it is one of the ATR fraction, the
  swing fraction and -0.15, and it is less than none of them, so it is never more negative
  than -0.15. When the ATR fraction is a number, the value is greater than or equal to
  it, to -0.15 and to the swing fraction (when that is a number too): it is at least,
  not at most, the greater of the two fractions.
\<close>

theorem custom_stoploss_bounds:
  fixes trade :: trade and current_time :: int and current_rate current_profit :: pyfloat
  assumes "200 \<le> nrows (fst (dp pair timeframe))"
    and "iloc (fst (dp pair timeframe)) (- 1) = Inr last_candle"
    and "last_candle ''atr'' = Some (Num atr)"
    and "last_candle ''atr_ratio'' = Some (Num atr_ratio)"
    and "last_candle ''uptrend'' = Some uptrend"
    and "last_candle ''swing_low'' = Some (Num swing_low)"
  defines "a \<equiv> atr_stoploss_pct current_rate atr
               (atr_multiplier uptrend atr_ratio current_profit (trade_duration current_time trade))
               (open_rate trade)"
    and "s \<equiv> swing_stoploss_pct swing_low (open_rate trade)"
  shows "\<exists>r. custom_stoploss dp pair trade current_time current_rate current_profit after_fill = Inr r
           \<and> (r = a \<or> r = s \<or> r = Fin (- 0.15))
           \<and> \<not> flt r a \<and> \<not> flt r s \<and> \<not> flt r (Fin (- 0.15))
           \<and> (a \<noteq> NaN \<longrightarrow> fge r a \<and> fge r (Fin (- 0.15)) \<and> (s \<noteq> NaN \<longrightarrow> fge r s))"
proof -
  have "startup_candle_count \<le> nrows (fst (dp pair timeframe))"
    using assms(1) by (simp add: startup_candle_count_def)
  from custom_stoploss_value [where dp = dp and pair = pair, OF this assms(2-6)]
  have eq: "custom_stoploss dp pair trade current_time current_rate current_profit after_fill =
            Inr (py_max3 a s (Fin (- 0.15)))"
    by (simp add: a_def s_def stoploss_def)
  have c: "Fin (- 0.15) \<noteq> NaN"
    by simp
  show ?thesis
    unfolding eq
    using py_max3_among [of a s "Fin (- 0.15)"] py_max3_not_less [of a s "Fin (- 0.15)"]
      py_max3_ge [of a "Fin (- 0.15)" s]
    by blast
qed

theorem custom_stoploss_bounds_witness:
  "\<exists>r. custom_stoploss
     (\<lambda>pair tf. (\<lparr>nrows = 200,
                    cols = [''atr'' \<mapsto> replicate 200 (Num (Fin 1)),
                            ''atr_ratio'' \<mapsto> replicate 200 (Num (Fin 1)),
                            ''uptrend'' \<mapsto> replicate 200 (Bool False),
                            ''swing_low'' \<mapsto> replicate 200 (Num (Fin 103))]\<rparr>, 0))
     ''BTC/USDT'' \<lparr>open_rate = Fin 100, open_date_utc = 0\<rparr> 60000000 (Fin 105) (Fin 0.05) False
     = Inr r \<and> fge r (Fin 0.041) \<and> fge r (Fin 0.0197) \<and> fge r (Fin (- 0.15))"
proof -
  let ?df = "\<lparr>nrows = 200,
              cols = [''atr'' \<mapsto> replicate 200 (Num (Fin 1)),
                      ''atr_ratio'' \<mapsto> replicate 200 (Num (Fin 1)),
                      ''uptrend'' \<mapsto> replicate 200 (Bool False),
                      ''swing_low'' \<mapsto> replicate 200 (Num (Fin 103))]\<rparr>"
  let ?dp = "\<lambda>pair tf :: string. (?df, 0 :: int)"
  obtain lc where lc: "iloc (fst (?dp ''BTC/USDT'' timeframe)) (- 1) = Inr lc"
    by (simp add: iloc_def)
  have n: "200 \<le> nrows (fst (?dp ''BTC/USDT'' timeframe))"
    by simp
  have r: "lc ''atr'' = Some (Num (Fin 1))" "lc ''atr_ratio'' = Some (Num (Fin 1))"
    "lc ''uptrend'' = Some (Bool False)" "lc ''swing_low'' = Some (Num (Fin 103))"
    using lc by (auto simp: iloc_def)
  from custom_stoploss_bounds [where dp = ?dp and pair = "''BTC/USDT''", OF n lc r,
      where current_rate = "Fin 105" and current_profit = "Fin 0.05" and current_time = 60000000
        and trade = "\<lparr>open_rate = Fin 100, open_date_utc = 0\<rparr>" and after_fill = False]
  show ?thesis
    by (simp add: atr_multiplier_def trade_duration_def atr_stoploss_pct_def
        swing_stoploss_pct_def fgt_def fsub_def) blast
qed

text \<open>
  C3 as stated fails. Open rate 100, current rate 84, ATR 1, ratio 1, no uptrend, swing low
  83: the ATR fraction is -0.17, the swing fraction -0.1783, and the value returned is
  -0.15, which is greater than both, not less than or equal to the greater of them.
\<close>

theorem custom_stoploss_bounds_counterexample:
  "custom_stoploss
     (\<lambda>pair tf. (\<lparr>nrows = 200,
                    cols = [''atr'' \<mapsto> replicate 200 (Num (Fin 1)),
                            ''atr_ratio'' \<mapsto> replicate 200 (Num (Fin 1)),
                            ''uptrend'' \<mapsto> replicate 200 (Bool False),
                            ''swing_low'' \<mapsto> replicate 200 (Num (Fin 83))]\<rparr>, 0))
     ''BTC/USDT'' \<lparr>open_rate = Fin 100, open_date_utc = 0\<rparr> 60000000 (Fin 84) (Fin (- 0.16)) False
   = Inr (Fin (- 0.15))
   \<and> atr_stoploss_pct (Fin 84) (Fin 1)
        (atr_multiplier (Bool False) (Fin 1) (Fin (- 0.16))
           (trade_duration 60000000 \<lparr>open_rate = Fin 100, open_date_utc = 0\<rparr>)) (Fin 100)
       = Fin (- 0.17)
   \<and> swing_stoploss_pct (Fin 83) (Fin 100) = Fin (- 0.1783)
   \<and> \<not> fle (Fin (- 0.15)) (Fin (- 0.17))
   \<and> \<not> fle (Fin (- 0.15)) (Fin (- 0.1783))"
  by (simp add: custom_stoploss_def startup_candle_count_def iloc_def row_get_def
      atr_multiplier_def trade_duration_def atr_stoploss_pct_def swing_stoploss_pct_def py_max3_def
      fgt_def fsub_def stoploss_def)

text \<open>
  C4. With at least 200 candles, the multiplier that custom\_stoploss uses is the ATR ratio
  times 1.5 in an uptrend and times 1.0 otherwise, times 0.8 when the profit is above 0.05
  and otherwise times 0.9 when it is above 0.02 (one factor at most), times 0.8 when more
  than 120 minutes (7200000000 microseconds) have passed since the trade opened.
\<close>

theorem custom_stoploss_multiplier:
  assumes "200 \<le> nrows (fst (dp pair timeframe))"
    and "iloc (fst (dp pair timeframe)) (- 1) = Inr last_candle"
    and "last_candle ''atr'' = Some (Num atr)"
    and "last_candle ''atr_ratio'' = Some (Num atr_ratio)"
    and "last_candle ''uptrend'' = Some uptrend"
    and "last_candle ''swing_low'' = Some (Num swing_low)"
  shows "custom_stoploss dp pair trade current_time current_rate current_profit after_fill =
     Inr (py_max3
            (atr_stoploss_pct current_rate atr
               (fmul (fmul (fmul (Fin (if truth uptrend then 1.5 else 1.0)) atr_ratio)
                           (Fin (if fgt current_profit (Fin 0.05) then 0.8
                                 else if fgt current_profit (Fin 0.02) then 0.9 else 1)))
                     (Fin (if 7200000000 < current_time - open_date_utc trade then 0.8 else 1)))
               (open_rate trade))
            (swing_stoploss_pct swing_low (open_rate trade))
            stoploss)"
proof -
  have "startup_candle_count \<le> nrows (fst (dp pair timeframe))"
    using assms(1) by (simp add: startup_candle_count_def)
  from custom_stoploss_value [where dp = dp and pair = pair, OF this assms(2-6)] show ?thesis
    by (simp add: atr_multiplier_formula)
qed

theorem custom_stoploss_multiplier_witness:
  "custom_stoploss
     (\<lambda>pair tf. (\<lparr>nrows = 200,
                    cols = [''atr'' \<mapsto> replicate 200 (Num (Fin 1)),
                            ''atr_ratio'' \<mapsto> replicate 200 (Num (Fin 1.2)),
                            ''uptrend'' \<mapsto> replicate 200 (Bool True),
                            ''swing_low'' \<mapsto> replicate 200 (Num (Fin 103))]\<rparr>, 0))
     ''BTC/USDT'' \<lparr>open_rate = Fin 100, open_date_utc = 0\<rparr> 7260000000 (Fin 106) (Fin 0.06) False
   = Inr (py_max3 (atr_stoploss_pct (Fin 106) (Fin 1) (Fin (1.5 * 1.2 * 0.8 * 0.8)) (Fin 100))
                  (swing_stoploss_pct (Fin 103) (Fin 100)) stoploss)"
proof -
  let ?df = "\<lparr>nrows = 200,
              cols = [''atr'' \<mapsto> replicate 200 (Num (Fin 1)),
                      ''atr_ratio'' \<mapsto> replicate 200 (Num (Fin 1.2)),
                      ''uptrend'' \<mapsto> replicate 200 (Bool True),
                      ''swing_low'' \<mapsto> replicate 200 (Num (Fin 103))]\<rparr>"
  let ?dp = "\<lambda>pair tf :: string. (?df, 0 :: int)"
  obtain lc where lc: "iloc (fst (?dp ''BTC/USDT'' timeframe)) (- 1) = Inr lc"
    by (simp add: iloc_def)
  have n: "200 \<le> nrows (fst (?dp ''BTC/USDT'' timeframe))"
    by simp
  have r: "lc ''atr'' = Some (Num (Fin 1))" "lc ''atr_ratio'' = Some (Num (Fin 1.2))"
    "lc ''uptrend'' = Some (Bool True)" "lc ''swing_low'' = Some (Num (Fin 103))"
    using lc by (auto simp: iloc_def)
  from custom_stoploss_multiplier [where dp = ?dp and pair = "''BTC/USDT''", OF n lc r,
      where current_rate = "Fin 106" and current_profit = "Fin 0.06" and current_time = 7260000000
        and trade = "\<lparr>open_rate = Fin 100, open_date_utc = 0\<rparr>" and after_fill = False]
  show ?thesis
    by (simp add: fgt_def)
qed

text \<open>
  C9. Two analyzed dataframes of at least 200 rows whose last rows agree on atr,
  atr\_ratio, uptrend and swing\_low give the same result for the same trade, time, rate
  and profit: earlier rows and other columns play no part.
\<close>

theorem custom_stoploss_last_candle_only:
  assumes "200 \<le> nrows (fst (dp1 pair timeframe))"
    and "200 \<le> nrows (fst (dp2 pair timeframe))"
    and "iloc (fst (dp1 pair timeframe)) (- 1) = Inr row1"
    and "iloc (fst (dp2 pair timeframe)) (- 1) = Inr row2"
    and "\<forall>name \<in> {''atr'', ''atr_ratio'', ''uptrend'', ''swing_low''}. row1 name = row2 name"
  shows "custom_stoploss dp1 pair trade current_time current_rate current_profit after_fill =
         custom_stoploss dp2 pair trade current_time current_rate current_profit after_fill"
  using assms by (simp add: custom_stoploss_def startup_candle_count_def row_get_def)

theorem custom_stoploss_last_candle_only_witness:
  "custom_stoploss
     (\<lambda>pair tf. (\<lparr>nrows = 200,
                    cols = [''atr'' \<mapsto> replicate 199 (Num (Fin 7)) @ [Num (Fin 1)],
                            ''atr_ratio'' \<mapsto> replicate 199 (Num (Fin 3)) @ [Num (Fin 1.2)],
                            ''uptrend'' \<mapsto> replicate 199 (Bool False) @ [Bool True],
                            ''swing_low'' \<mapsto> replicate 199 (Num (Fin 90)) @ [Num (Fin 103)],
                            ''close'' \<mapsto> replicate 200 (Num (Fin 104))]\<rparr>, 0))
     ''BTC/USDT'' \<lparr>open_rate = Fin 100, open_date_utc = 0\<rparr> 600000000 (Fin 105) (Fin 0.03) False
   = custom_stoploss
     (\<lambda>pair tf. (\<lparr>nrows = 201,
                    cols = [''atr'' \<mapsto> replicate 201 (Num (Fin 1)),
                            ''atr_ratio'' \<mapsto> replicate 201 (Num (Fin 1.2)),
                            ''uptrend'' \<mapsto> replicate 201 (Bool True),
                            ''swing_low'' \<mapsto> replicate 201 (Num (Fin 103))]\<rparr>, 5))
     ''BTC/USDT'' \<lparr>open_rate = Fin 100, open_date_utc = 0\<rparr> 600000000 (Fin 105) (Fin 0.03) False"
proof -
  let ?df1 = "\<lparr>nrows = 200,
               cols = [''atr'' \<mapsto> replicate 199 (Num (Fin 7)) @ [Num (Fin 1)],
                       ''atr_ratio'' \<mapsto> replicate 199 (Num (Fin 3)) @ [Num (Fin 1.2)],
                       ''uptrend'' \<mapsto> replicate 199 (Bool False) @ [Bool True],
                       ''swing_low'' \<mapsto> replicate 199 (Num (Fin 90)) @ [Num (Fin 103)],
                       ''close'' \<mapsto> replicate 200 (Num (Fin 104))]\<rparr>"
  let ?df2 = "\<lparr>nrows = 201,
               cols = [''atr'' \<mapsto> replicate 201 (Num (Fin 1)),
                       ''atr_ratio'' \<mapsto> replicate 201 (Num (Fin 1.2)),
                       ''uptrend'' \<mapsto> replicate 201 (Bool True),
                       ''swing_low'' \<mapsto> replicate 201 (Num (Fin 103))]\<rparr>"
  let ?dp1 = "\<lambda>pair tf :: string. (?df1, 0 :: int)"
  let ?dp2 = "\<lambda>pair tf :: string. (?df2, 5 :: int)"
  obtain r1 where r1: "iloc (fst (?dp1 ''BTC/USDT'' timeframe)) (- 1) = Inr r1"
    by (simp add: iloc_def)
  obtain r2 where r2: "iloc (fst (?dp2 ''BTC/USDT'' timeframe)) (- 1) = Inr r2"
    by (simp add: iloc_def)
  have n1: "200 \<le> nrows (fst (?dp1 ''BTC/USDT'' timeframe))"
    by simp
  have n2: "200 \<le> nrows (fst (?dp2 ''BTC/USDT'' timeframe))"
    by simp
  have agree: "\<forall>name \<in> {''atr'', ''atr_ratio'', ''uptrend'', ''swing_low''}. r1 name = r2 name"
    using r1 r2 by (auto simp: iloc_def nth_append)
  from custom_stoploss_last_candle_only [where ?dp1.0 = ?dp1 and ?dp2.0 = ?dp2
      and pair = "''BTC/USDT''", OF n1 n2 r1 r2 agree]
  show ?thesis .
qed

text \<open>
  C10. With at least 200 candles, a last row whose atr, atr\_ratio and swing\_low are finite
  numbers (and that has an uptrend cell), and an open rate other than zero,
  custom\_stoploss returns a value and raises nothing.
\<close>

theorem custom_stoploss_total:
  assumes "200 \<le> nrows (fst (dp pair timeframe))"
    and "iloc (fst (dp pair timeframe)) (- 1) = Inr last_candle"
    and "last_candle ''atr'' = Some (Num (Fin atr))"
    and "last_candle ''atr_ratio'' = Some (Num (Fin atr_ratio))"
    and "last_candle ''uptrend'' = Some uptrend"
    and "last_candle ''swing_low'' = Some (Num (Fin swing_low))"
    and "open_rate trade \<noteq> Fin 0"
  shows "\<exists>v. custom_stoploss dp pair trade current_time current_rate current_profit after_fill = Inr v"
proof -
  have "startup_candle_count \<le> nrows (fst (dp pair timeframe))"
    using assms(1) by (simp add: startup_candle_count_def)
  from custom_stoploss_value [where dp = dp and pair = pair, OF this assms(2-6)]
  show ?thesis
    by (rule exI)
qed

theorem custom_stoploss_total_witness:
  "\<exists>v. custom_stoploss
     (\<lambda>pair tf. (\<lparr>nrows = 250,
                    cols = [''atr'' \<mapsto> replicate 250 (Num (Fin 2)),
                            ''atr_ratio'' \<mapsto> replicate 250 (Num (Fin 0.9)),
                            ''uptrend'' \<mapsto> replicate 250 (Bool False),
                            ''swing_low'' \<mapsto> replicate 250 (Num (Fin 97))]\<rparr>, 0))
     ''ETH/USDT'' \<lparr>open_rate = Fin 100, open_date_utc = 0\<rparr> 60000000 (Fin 99) (Fin (- 0.01)) False
     = Inr v"
proof -
  let ?df = "\<lparr>nrows = 250,
              cols = [''atr'' \<mapsto> replicate 250 (Num (Fin 2)),
                      ''atr_ratio'' \<mapsto> replicate 250 (Num (Fin 0.9)),
                      ''uptrend'' \<mapsto> replicate 250 (Bool False),
                      ''swing_low'' \<mapsto> replicate 250 (Num (Fin 97))]\<rparr>"
  let ?dp = "\<lambda>pair tf :: string. (?df, 0 :: int)"
  let ?trade = "\<lparr>open_rate = Fin 100, open_date_utc = 0\<rparr>"
  obtain lc where lc: "iloc (fst (?dp ''ETH/USDT'' timeframe)) (- 1) = Inr lc"
    by (simp add: iloc_def)
  have n: "200 \<le> nrows (fst (?dp ''ETH/USDT'' timeframe))"
    by simp
  have r: "lc ''atr'' = Some (Num (Fin 2))" "lc ''atr_ratio'' = Some (Num (Fin 0.9))"
    "lc ''uptrend'' = Some (Bool False)" "lc ''swing_low'' = Some (Num (Fin 97))"
    using lc by (auto simp: iloc_def)
  have o: "open_rate ?trade \<noteq> Fin 0"
    by simp
  from custom_stoploss_total [where dp = ?dp and pair = "''ETH/USDT''" and trade = ?trade,
      OF n lc r o, where current_rate = "Fin 99" and current_profit = "Fin (- 0.01)"
        and current_time = 60000000 and after_fill = False]
  show ?thesis
    by simp
qed

subsection \<open>Facts about dataframes and series\<close>

lemma ebind_eq_Inr: "ebind m f = Inr y \<longleftrightarrow> (\<exists>x. m = Inr x \<and> f x = Inr y)"
  by (cases m) simp_all

lemma to_floats_map_Num [simp]: "to_floats (map Num xs) = Inr xs"
  by (induction xs) simp_all

lemma to_floats_length: "to_floats cs = Inr xs \<Longrightarrow> length xs = length cs"
  by (induction cs arbitrary: xs) (auto simp: ebind_eq_Inr)

lemma getitem_setitem [simp]:
  "getitem (setitem df name s) name' = (if name' = name then Inr s else getitem df name')"
  by (simp add: getitem_def setitem_def)

lemma nrows_setitem [simp]: "nrows (setitem df name s) = nrows df"
  by (simp add: setitem_def)

lemma cols_setitem [simp]: "cols (setitem df name s) = (cols df)(name \<mapsto> s)"
  by (simp add: setitem_def)

lemma length_ffill_from [simp]: "length (ffill_from p xs) = length xs"
  by (induction xs arbitrary: p) (simp_all add: Let_def)

lemma NaN_right [simp]:
  "fadd a NaN = NaN" "fmul a NaN = NaN" "fdiv a NaN = NaN" "\<not> flt a NaN" "\<not> fle a NaN"
  by (cases a; simp)+

lemma length_shift1 [simp]: "length (shift1 xs) = length xs"
  by (simp add: shift1_def)

lemma length_pct_change [simp]: "length (pct_change pad xs) = length xs"
  by (simp add: pct_change_def ffill_def Let_def)

lemma length_rolling [simp]: "length (rolling w agg xs) = length xs"
  by (simp add: rolling_def)



lemma populate_indicators_eq:
  "populate_indicators ta pad df md =
     ebind (ebind (getitem df ''close'') to_floats) (\<lambda>close.
     let d1 = setitem df ''price_change'' (map Num (pct_change pad close)) in
     ebind (ATR ta d1 14) (\<lambda>atr.
     let d2 = setitem (setitem (setitem d1 ''atr'' (map Num atr))
                ''long_atr'' (map Num (rolling 100 mean atr)))
                ''atr_ratio'' (map Num (map2 fdiv atr (rolling 100 mean atr))) in
     ebind (EMA ta d2 50) (\<lambda>es.
     let d3 = setitem d2 ''ema_short'' (map Num es) in
     ebind (EMA ta d3 200) (\<lambda>el.
     ebind (ebind (getitem df ''low'') to_floats) (\<lambda>low.
     Inr (setitem (setitem (setitem d3 ''ema_long'' (map Num el))
            ''uptrend'' (map2 (\<lambda>a b. Bool (fgt a b)) es el))
            ''swing_low'' (map Num (rolling 5 minimum low))))))))"
  by (simp add: populate_indicators_def Let_def)


lemma getitem_to_floats_length:
  assumes "ebind (getitem df name) to_floats = Inr xs"
    and "\<forall>name s. cols df name = Some s \<longrightarrow> length s = nrows df"
  shows "length xs = nrows df"
  using assms
  by (auto simp: ebind_eq_Inr getitem_def to_floats_length split: option.splits)

lemma fdiv_zero: "\<not> is_finite (fdiv a (Fin 0))"
  by (cases a) simp_all

lemma rolling_nth:
  "i < length xs \<Longrightarrow>
   rolling w agg xs ! i =
     (let win = take w (drop (i + 1 - w) (prep_values xs))
      in if i + 1 < w \<or> NaN \<in> set win then NaN else agg win)"
  by (simp add: rolling_def)

lemma map2_fdiv_nth:
  "i < length xs \<Longrightarrow> i < length ys \<Longrightarrow> map2 fdiv xs ys ! i = fdiv (xs ! i) (ys ! i)"
  by simp

text \<open>What \<open>loc_set\<close> writes into the cell of a row, in a new and in an old column.\<close>

lemma loc_set_cell:
  assumes n: "length sel = nrows df"
    and wf: "\<forall>s. cols df name = Some s \<longrightarrow> length s = nrows df"
    and i: "i < nrows df"
  shows "\<exists>df' col. loc_set df sel name v = Inr df'
           \<and> cols df' name = Some col \<and> length col = nrows df
           \<and> col ! i = (if sel ! i then v
                         else (case cols df name of None \<Rightarrow> Num NaN | Some s \<Rightarrow> s ! i))"
proof (cases "cols df name")
  case None
  let ?col = "map2 (\<lambda>m c. if m then v else c) sel (replicate (nrows df) (Num NaN))"
  have "loc_set df sel name v = Inr (setitem df name ?col)"
    using None i by (simp add: loc_set_def)
  moreover have "cols (setitem df name ?col) name = Some ?col"
    by simp
  moreover have "length ?col = nrows df"
    using n by simp
  moreover have "?col ! i = (if sel ! i then v
      else (case cols df name of None \<Rightarrow> Num NaN | Some s \<Rightarrow> s ! i))"
    using None n i by simp
  ultimately show ?thesis
    by blast
next
  case (Some s)
  let ?col = "map2 (\<lambda>m c. if m then v else c) sel s"
  from wf Some have ls: "length s = nrows df"
    by simp
  have "loc_set df sel name v = Inr (setitem df name ?col)"
    using Some by (simp add: loc_set_def)
  moreover have "cols (setitem df name ?col) name = Some ?col"
    by simp
  moreover have "length ?col = nrows df"
    using n ls by simp
  moreover have "?col ! i = (if sel ! i then v
      else (case cols df name of None \<Rightarrow> Num NaN | Some s \<Rightarrow> s ! i))"
    using Some n ls i by simp
  ultimately show ?thesis
    by blast
qed

lemma signal_cell:
  "cols df name = Some col \<Longrightarrow> i < length col \<Longrightarrow>
   signal df name i \<longleftrightarrow> num (col ! i) = Inr (Fin 1)"
  by (simp add: signal_def)

lemma signal_old_cell:
  assumes "\<forall>s. cols df name = Some s \<longrightarrow> length s = nrows df" and "i < nrows df"
  shows "signal df name i \<longleftrightarrow>
           num (case cols df name of None \<Rightarrow> Num NaN | Some s \<Rightarrow> s ! i) = Inr (Fin 1)"
  using assms by (simp add: signal_def split: option.splits)

lemma to_floats_replicate [simp]: "to_floats (replicate n (Num x)) = Inr (replicate n x)"
  using to_floats_map_Num [of "replicate n x"] by simp

lemma foldl_fadd_zeros: "foldl fadd (Fin 0) (replicate n (Fin 0)) = Fin 0"
  by (induction n) simp_all

lemma map_Num_inj: "map Num xs = map Num ys \<Longrightarrow> xs = ys"
  by (induction xs arbitrary: ys) auto

lemma rolling_mean_zeros:
  "rolling 100 mean (replicate 100 (Fin 0)) ! 99 = Fin 0"
  by (simp add: rolling_nth prep_values_def Let_def mean_def foldl_fadd_zeros)

subsection \<open>populate\_indicators\<close>

text \<open>
  C8. For a dataframe of N rows with numeric close and low columns, every column of N
  cells, and an indicator library that returns one value per row, populate\_indicators
  returns a dataframe of N rows in which the candle columns (date, open, high, low, close,
  volume), and every column other than the eight derived ones, are unchanged; the columns
  of the result are those of the input and the eight derived ones, each of N cells.
\<close>

theorem populate_indicators_frame:
  assumes close: "ebind (getitem df ''close'') to_floats = Inr close"
    and low: "ebind (getitem df ''low'') to_floats = Inr low"
    and wf: "\<forall>name s. cols df name = Some s \<longrightarrow> length s = nrows df"
    and atr: "\<forall>d n. \<exists>s. ATR ta d n = Inr s \<and> length s = nrows d"
    and ema: "\<forall>d n. \<exists>s. EMA ta d n = Inr s \<and> length s = nrows d"
  shows "\<exists>df'. populate_indicators ta pad df md = Inr df'
           \<and> nrows df' = nrows df
           \<and> (\<forall>name \<in> {''date'', ''open'', ''high'', ''low'', ''close'', ''volume''}.
                 cols df' name = cols df name)
           \<and> (\<forall>name. name \<notin> {''price_change'', ''atr'', ''long_atr'', ''atr_ratio'',
                                ''ema_short'', ''ema_long'', ''uptrend'', ''swing_low''}
                 \<longrightarrow> cols df' name = cols df name)
           \<and> dom (cols df') = dom (cols df) \<union>
                 {''price_change'', ''atr'', ''long_atr'', ''atr_ratio'',
                  ''ema_short'', ''ema_long'', ''uptrend'', ''swing_low''}
           \<and> (\<forall>name s. cols df' name = Some s \<longrightarrow> length s = nrows df)"
proof -
  let ?d1 = "setitem df ''price_change'' (map Num (pct_change pad close))"
  from atr obtain a where a: "ATR ta ?d1 14 = Inr a" "length a = nrows ?d1"
    by blast
  let ?d2 = "setitem (setitem (setitem ?d1 ''atr'' (map Num a))
                ''long_atr'' (map Num (rolling 100 mean a)))
                ''atr_ratio'' (map Num (map2 fdiv a (rolling 100 mean a)))"
  from ema obtain es where es: "EMA ta ?d2 50 = Inr es" "length es = nrows ?d2"
    by blast
  let ?d3 = "setitem ?d2 ''ema_short'' (map Num es)"
  from ema obtain el where el: "EMA ta ?d3 200 = Inr el" "length el = nrows ?d3"
    by blast
  let ?r = "setitem (setitem (setitem ?d3 ''ema_long'' (map Num el))
            ''uptrend'' (map2 (\<lambda>a b. Bool (fgt a b)) es el))
            ''swing_low'' (map Num (rolling 5 minimum low))"
  have eq: "populate_indicators ta pad df md = Inr ?r"
    using close low a(1) es(1) el(1) by (simp add: populate_indicators_eq Let_def)
  have len: "length close = nrows df" "length low = nrows df" "length a = nrows df"
    "length es = nrows df" "length el = nrows df"
    using getitem_to_floats_length [OF close wf] getitem_to_floats_length [OF low wf]
      a(2) es(2) el(2) by simp_all
  have 1: "nrows ?r = nrows df"
    by simp
  have 2: "\<forall>name. name \<notin> {''price_change'', ''atr'', ''long_atr'', ''atr_ratio'',
                                ''ema_short'', ''ema_long'', ''uptrend'', ''swing_low''}
                 \<longrightarrow> cols ?r name = cols df name"
    by simp
  have 3: "\<forall>name \<in> {''date'', ''open'', ''high'', ''low'', ''close'', ''volume''}.
                 cols ?r name = cols df name"
    by simp
  have 4: "dom (cols ?r) = dom (cols df) \<union>
                 {''price_change'', ''atr'', ''long_atr'', ''atr_ratio'',
                  ''ema_short'', ''ema_long'', ''uptrend'', ''swing_low''}"
    by auto
  have 5: "\<forall>name s. cols ?r name = Some s \<longrightarrow> length s = nrows df"
    using wf len by (auto split: if_splits)
  show ?thesis
    unfolding eq using 1 2 3 4 5 by blast
qed

theorem populate_indicators_frame_witness:
  "\<exists>df'.
     populate_indicators
       \<lparr>ATR = \<lambda>d n. Inr (replicate (nrows d) (Fin 1)),
        EMA = \<lambda>d n. Inr (replicate (nrows d) (Fin 100))\<rparr> True
       \<lparr>nrows = 2,
        cols = [''date'' \<mapsto> [Stamp 0, Stamp 60000000],
                ''open'' \<mapsto> [Num (Fin 100), Num (Fin 101)],
                ''high'' \<mapsto> [Num (Fin 102), Num (Fin 103)],
                ''low'' \<mapsto> [Num (Fin 99), Num (Fin 100)],
                ''close'' \<mapsto> [Num (Fin 101), Num (Fin 102)],
                ''volume'' \<mapsto> [Num (Fin 7), Num (Fin 9)]]\<rparr>
       Map.empty = Inr df'
     \<and> nrows df' = 2
     \<and> cols df' ''date'' = Some [Stamp 0, Stamp 60000000]
     \<and> cols df' ''close'' = Some [Num (Fin 101), Num (Fin 102)]
     \<and> cols df' ''volume'' = Some [Num (Fin 7), Num (Fin 9)]"
proof -
  let ?ta = "\<lparr>ATR = \<lambda>d n. Inr (replicate (nrows d) (Fin 1)),
              EMA = \<lambda>d n. Inr (replicate (nrows d) (Fin 100))\<rparr>"
  let ?df = "\<lparr>nrows = 2,
        cols = [''date'' \<mapsto> [Stamp 0, Stamp 60000000],
                ''open'' \<mapsto> [Num (Fin 100), Num (Fin 101)],
                ''high'' \<mapsto> [Num (Fin 102), Num (Fin 103)],
                ''low'' \<mapsto> [Num (Fin 99), Num (Fin 100)],
                ''close'' \<mapsto> [Num (Fin 101), Num (Fin 102)],
                ''volume'' \<mapsto> [Num (Fin 7), Num (Fin 9)]]\<rparr>"
  have c: "ebind (getitem ?df ''close'') to_floats = Inr [Fin 101, Fin 102]"
    by (simp add: getitem_def)
  have l: "ebind (getitem ?df ''low'') to_floats = Inr [Fin 99, Fin 100]"
    by (simp add: getitem_def)
  have wf: "\<forall>name s. cols ?df name = Some s \<longrightarrow> length s = nrows ?df"
    by (auto split: if_splits)
  have a: "\<forall>d n. \<exists>s. ATR ?ta d n = Inr s \<and> length s = nrows d"
    by simp
  have e: "\<forall>d n. \<exists>s. EMA ?ta d n = Inr s \<and> length s = nrows d"
    by simp
  from populate_indicators_frame [OF c l wf a e, of True Map.empty]
  show ?thesis
    by (elim exE conjE) simp
qed

text \<open>
  C7. When the close and low columns are numeric and the library calls return,
  populate\_indicators returns: the division atr / long\_atr of line 39 adds no error. The
  atr\_ratio column holds, row by row, the quotient of the atr and long\_atr cells, and
  where long\_atr is zero that quotient is no finite number (it is NaN or an infinity).
\<close>

theorem atr_ratio_division:
  assumes close: "ebind (getitem df ''close'') to_floats = Inr close"
    and low: "ebind (getitem df ''low'') to_floats = Inr low"
    and atr: "\<forall>d n. \<exists>s. ATR ta d n = Inr s"
    and ema: "\<forall>d n. \<exists>s. EMA ta d n = Inr s"
  shows "\<exists>df' atr long_atr.
           populate_indicators ta pad df md = Inr df'
         \<and> cols df' ''atr'' = Some (map Num atr)
         \<and> cols df' ''long_atr'' = Some (map Num long_atr)
         \<and> length long_atr = length atr
         \<and> cols df' ''atr_ratio'' = Some (map Num (map2 fdiv atr long_atr))
         \<and> (\<forall>i < length atr. long_atr ! i = Fin 0 \<longrightarrow>
               \<not> is_finite (map2 fdiv atr long_atr ! i))"
proof -
  let ?d1 = "setitem df ''price_change'' (map Num (pct_change pad close))"
  from atr obtain a where a: "ATR ta ?d1 14 = Inr a"
    by blast
  let ?l = "rolling 100 mean a"
  let ?d2 = "setitem (setitem (setitem ?d1 ''atr'' (map Num a))
                ''long_atr'' (map Num ?l))
                ''atr_ratio'' (map Num (map2 fdiv a ?l))"
  from ema obtain es where es: "EMA ta ?d2 50 = Inr es"
    by blast
  let ?d3 = "setitem ?d2 ''ema_short'' (map Num es)"
  from ema obtain el where el: "EMA ta ?d3 200 = Inr el"
    by blast
  let ?r = "setitem (setitem (setitem ?d3 ''ema_long'' (map Num el))
            ''uptrend'' (map2 (\<lambda>a b. Bool (fgt a b)) es el))
            ''swing_low'' (map Num (rolling 5 minimum low))"
  have eq: "populate_indicators ta pad df md = Inr ?r"
    using close low a es el by (simp add: populate_indicators_eq Let_def)
  have c1: "cols ?r ''atr'' = Some (map Num a)"
    by simp
  have c2: "cols ?r ''long_atr'' = Some (map Num ?l)"
    by simp
  have c3: "length ?l = length a"
    by simp
  have c4: "cols ?r ''atr_ratio'' = Some (map Num (map2 fdiv a ?l))"
    by simp
  have c5: "\<forall>i < length a. ?l ! i = Fin 0 \<longrightarrow> \<not> is_finite (map2 fdiv a ?l ! i)"
  proof (intro allI impI)
    fix i
    assume i: "i < length a" and z: "?l ! i = Fin 0"
    have "map2 fdiv a ?l ! i = fdiv (a ! i) (Fin 0)"
      using i z map2_fdiv_nth [of i a ?l] by simp
    then show "\<not> is_finite (map2 fdiv a ?l ! i)"
      by (simp add: fdiv_zero)
  qed
  show ?thesis
    by (rule exI [of _ ?r], rule exI [of _ a], rule exI [of _ ?l], intro conjI)
       (rule eq, rule c1, rule c2, rule c3, rule c4, rule c5)
qed

theorem atr_ratio_division_witness:
  "\<exists>df' r.
     populate_indicators
       \<lparr>ATR = \<lambda>d n. Inr (replicate (nrows d) (Fin 0)),
        EMA = \<lambda>d n. Inr (replicate (nrows d) (Fin 5))\<rparr> True
       \<lparr>nrows = 100,
        cols = [''high'' \<mapsto> replicate 100 (Num (Fin 5)),
                ''low'' \<mapsto> replicate 100 (Num (Fin 5)),
                ''close'' \<mapsto> replicate 100 (Num (Fin 5))]\<rparr>
       Map.empty = Inr df'
     \<and> cols df' ''atr_ratio'' = Some (map Num r) \<and> \<not> is_finite (r ! 99)"
proof -
  let ?ta = "\<lparr>ATR = \<lambda>d n. Inr (replicate (nrows d) (Fin 0)),
              EMA = \<lambda>d n. Inr (replicate (nrows d) (Fin 5))\<rparr>"
  let ?df = "\<lparr>nrows = 100,
        cols = [''high'' \<mapsto> replicate 100 (Num (Fin 5)),
                ''low'' \<mapsto> replicate 100 (Num (Fin 5)),
                ''close'' \<mapsto> replicate 100 (Num (Fin 5))]\<rparr>"
  let ?z = "replicate 100 (Fin 0)"
  have c: "ebind (getitem ?df ''close'') to_floats = Inr (replicate 100 (Fin 5))"
    by (simp add: getitem_def)
  have l: "ebind (getitem ?df ''low'') to_floats = Inr (replicate 100 (Fin 5))"
    by (simp add: getitem_def)
  have a: "\<forall>d n. \<exists>s. ATR ?ta d n = Inr s"
    by simp
  have e: "\<forall>d n. \<exists>s. EMA ?ta d n = Inr s"
    by simp
  from atr_ratio_division [OF c l a e, of True Map.empty]
  obtain df' atr long_atr where
    run: "populate_indicators ?ta True ?df Map.empty = Inr df'" and
    catr: "cols df' ''atr'' = Some (map Num atr)" and
    clong: "cols df' ''long_atr'' = Some (map Num long_atr)" and
    ratio: "cols df' ''atr_ratio'' = Some (map Num (map2 fdiv atr long_atr))" and
    zero: "\<forall>i < length atr. long_atr ! i = Fin 0 \<longrightarrow>
               \<not> is_finite (map2 fdiv atr long_atr ! i)"
    by (elim exE conjE)
  have "\<exists>d. populate_indicators ?ta True ?df Map.empty = Inr d
          \<and> cols d ''atr'' = Some (map Num ?z)
          \<and> cols d ''long_atr'' = Some (map Num (rolling 100 mean ?z))"
    using c l by (simp add: populate_indicators_eq Let_def)
  with run catr clong have m1: "map Num atr = map Num ?z"
    and m2: "map Num long_atr = map Num (rolling 100 mean ?z)"
    by auto
  have atr: "atr = ?z"
    using m1 by (rule map_Num_inj)
  have long: "long_atr = rolling 100 mean ?z"
    using m2 by (rule map_Num_inj)
  have "99 < length atr"
    unfolding atr by simp
  moreover have "long_atr ! 99 = Fin 0"
    unfolding long by (rule rolling_mean_zeros)
  ultimately have "\<not> is_finite (map2 fdiv atr long_atr ! 99)"
    using zero by blast
  with run ratio show ?thesis
    by - (rule exI [of _ df'], rule exI [of _ "map2 fdiv atr long_atr"], simp)
qed

subsection \<open>populate\_buy\_trend and populate\_sell\_trend\<close>




text \<open>
  C1, as the code has it. For a dataframe with numeric closes, populate\_sell\_trend writes 0
  into the sell column of every row whose close is greater than 0 and leaves the other
  rows as they were (NaN where the column is new). So the sell signal of a row with a
  close above 0 is not set, and a row has the sell signal afterwards only when its close
  is not above 0 and it had the signal before: with no sell column before, no row has it.
\<close>

theorem populate_sell_trend_signal:
  assumes close: "ebind (getitem df ''close'') to_floats = Inr close"
    and wf: "\<forall>name s. cols df name = Some s \<longrightarrow> length s = nrows df"
    and i: "i < nrows df"
  shows "\<exists>df' sell. populate_sell_trend df md = Inr df'
           \<and> cols df' ''sell'' = Some sell \<and> length sell = nrows df
           \<and> sell ! i = (if fgt (close ! i) (Fin 0) then Num (Fin 0)
                         else (case cols df ''sell'' of None \<Rightarrow> Num NaN | Some s \<Rightarrow> s ! i))
           \<and> (signal df' ''sell'' i \<longleftrightarrow> \<not> fgt (close ! i) (Fin 0) \<and> signal df ''sell'' i)"
proof -
  let ?sel = "map (\<lambda>x. fgt x (Fin 0)) close"
  let ?old = "case cols df ''sell'' of None \<Rightarrow> Num NaN | Some s \<Rightarrow> s ! i"
  have lc: "length close = nrows df"
    by (rule getitem_to_floats_length [OF close wf])
  have n: "length ?sel = nrows df"
    using lc by simp
  from wf have wf': "\<forall>s. cols df ''sell'' = Some s \<longrightarrow> length s = nrows df"
    by simp
  from loc_set_cell [OF n wf' i, of "Num (Fin 0)"] obtain df' sell where
    run: "loc_set df ?sel ''sell'' (Num (Fin 0)) = Inr df'" and
    col: "cols df' ''sell'' = Some sell" and
    len: "length sell = nrows df" and
    cell: "sell ! i = (if ?sel ! i then Num (Fin 0) else ?old)"
    by (elim exE conjE)
  have r1: "populate_sell_trend df md = Inr df'"
    using close run by (simp add: populate_sell_trend_def)
  have r2: "sell ! i = (if fgt (close ! i) (Fin 0) then Num (Fin 0) else ?old)"
    using cell i lc by simp
  have "signal df' ''sell'' i \<longleftrightarrow> num (sell ! i) = Inr (Fin 1)"
    using col len i by (simp add: signal_cell)
  also have "\<dots> \<longleftrightarrow> \<not> fgt (close ! i) (Fin 0) \<and> num ?old = Inr (Fin 1)"
    unfolding r2 by simp
  also have "\<dots> \<longleftrightarrow> \<not> fgt (close ! i) (Fin 0) \<and> signal df ''sell'' i"
    using signal_old_cell [OF wf' i] by simp
  finally have r3: "signal df' ''sell'' i \<longleftrightarrow> \<not> fgt (close ! i) (Fin 0) \<and> signal df ''sell'' i" .
  show ?thesis
    by (rule exI [of _ df'], rule exI [of _ sell], intro conjI)
       (rule r1, rule col, rule len, rule r2, rule r3)
qed

theorem populate_sell_trend_signal_witness:
  "\<exists>df' sell.
     populate_sell_trend
       \<lparr>nrows = 2, cols = [''close'' \<mapsto> [Num (Fin 100), Num (Fin 0)],
                            ''sell'' \<mapsto> [Num (Fin 1), Num (Fin 1)]]\<rparr> Map.empty
       = Inr df'
     \<and> cols df' ''sell'' = Some sell \<and> sell ! 0 = Num (Fin 0) \<and> \<not> signal df' ''sell'' 0"
proof -
  let ?df = "\<lparr>nrows = 2, cols = [''close'' \<mapsto> [Num (Fin 100), Num (Fin 0)],
                                  ''sell'' \<mapsto> [Num (Fin 1), Num (Fin 1)]]\<rparr>"
  have c: "ebind (getitem ?df ''close'') to_floats = Inr [Fin 100, Fin 0]"
    by (simp add: getitem_def)
  have wf: "\<forall>name s. cols ?df name = Some s \<longrightarrow> length s = nrows ?df"
    by (auto split: if_splits)
  have i: "0 < nrows ?df"
    by simp
  from populate_sell_trend_signal [OF c wf i, of Map.empty]
  show ?thesis
    by (elim exE conjE) (simp add: fgt_def)
qed

text \<open>
  C1 as stated fails. With closes 100 and 101, both above 0, the sell column is 0 in both
  rows and the sell signal of row 0 is not set.
\<close>

theorem populate_sell_trend_counterexample:
  "fgt (Fin 100) (Fin 0)
   \<and> populate_sell_trend
       \<lparr>nrows = 2, cols = [''close'' \<mapsto> [Num (Fin 100), Num (Fin 101)]]\<rparr> Map.empty
     = Inr \<lparr>nrows = 2, cols = [''close'' \<mapsto> [Num (Fin 100), Num (Fin 101)],
                                ''sell'' \<mapsto> [Num (Fin 0), Num (Fin 0)]]\<rparr>
   \<and> \<not> signal \<lparr>nrows = 2, cols = [''close'' \<mapsto> [Num (Fin 100), Num (Fin 101)],
                                    ''sell'' \<mapsto> [Num (Fin 0), Num (Fin 0)]]\<rparr> ''sell'' 0"
  by (simp add: populate_sell_trend_def getitem_def loc_set_def setitem_def signal_def fgt_def
      numeral_2_eq_2)


end
